theory Spec2Isabelle
  imports Main "HOL-Library.Word"
begin

section \<open>The session proxy of proofd: data model\<close>

text \<open>
  Source: \<^verbatim>\<open>src/proofd/inc/XrdProofServProxy.h\<close>. The header declares three classes:
  \<^verbatim>\<open>XrdSrvBuffer\<close> (a buffer to be sent to or received from a client), \<^verbatim>\<open>XrdClientID\<close>
  (a client connection paired with a stream id) and \<^verbatim>\<open>XrdProofServProxy\<close> (one running
  proofserv session).

  A pointer is an address; the null pointer is address 0.
\<close>

type_synonym addr = nat

subsection \<open>XrdClientID\<close>

text \<open>
  \<^verbatim>\<open>XrdProofdProtocol *fP; unsigned short fSid;\<close>
\<close>

record XrdClientID =
  fP :: addr
  fSid :: "16 word"

text \<open>\<^verbatim>\<open>XrdClientID(XrdProofdProtocol *pt = 0, unsigned short id = 0) { fP = pt; fSid = id; }\<close>\<close>

definition XrdClientID_ctor :: "addr \<Rightarrow> 16 word \<Rightarrow> XrdClientID" where
  "XrdClientID_ctor pt sid = \<lparr>fP = pt, fSid = sid\<rparr>"

text \<open>\<^verbatim>\<open>bool IsValid() const { return (fP != 0); }\<close>\<close>

definition IsValid :: "XrdClientID \<Rightarrow> bool" where
  "IsValid c = (fP c \<noteq> 0)"

text \<open>\<^verbatim>\<open>void Reset() { fP = 0; fSid = 0; }\<close>: the object is updated in place.\<close>

definition Reset :: "XrdClientID \<Rightarrow> XrdClientID" where
  "Reset c = c\<lparr>fP := 0, fSid := 0\<rparr>"

subsection \<open>XrdSrvBuffer\<close>

text \<open>
  \<^verbatim>\<open>int fSize; char *fBuff;\<close> are public, \<^verbatim>\<open>char *fMembuf;\<close> is private.
\<close>

record XrdSrvBuffer =
  fSize :: int
  fBuff :: addr
  fMembuf :: addr

subsection \<open>The heap\<close>

text \<open>
  What the holders need of the process memory: the blocks handed out by \<^verbatim>\<open>malloc\<close> and
  not yet freed (by their address), the bytes stored at each address, and the
  \<^verbatim>\<open>XrdSrvBuffer\<close> objects created by \<^verbatim>\<open>new\<close> and not yet deleted.
\<close>

record heap =
  blocks :: "addr set"
  bytes :: "addr \<Rightarrow> 8 word"
  holders :: "addr \<rightharpoonup> XrdSrvBuffer"

text \<open>
  Freeing a block that is not live, or deleting an object that is not live, is undefined
  behaviour in C++; the model makes it an error value.
\<close>

datatype error = InvalidFree addr | InvalidDelete addr

text \<open>\<^verbatim>\<open>memcpy(dst, src, n)\<close>: the \<open>n\<close> bytes from \<open>src\<close> on are stored from \<open>dst\<close> on.\<close>

definition memcpy :: "(addr \<Rightarrow> 8 word) \<Rightarrow> addr \<Rightarrow> addr \<Rightarrow> nat \<Rightarrow> (addr \<Rightarrow> 8 word)" where
  "memcpy mem dst src n = (\<lambda>a. if dst \<le> a \<and> a < dst + n then mem (src + (a - dst)) else mem a)"

text \<open>\<^verbatim>\<open>free(a)\<close>: nothing for the null pointer, else the block must be live.\<close>

definition free :: "addr \<Rightarrow> heap \<Rightarrow> error + heap" where
  "free a h =
     (if a = 0 then Inr h
      else if a \<in> blocks h then Inr (h\<lparr>blocks := blocks h - {a}\<rparr>)
      else Inl (InvalidFree a))"

text \<open>
  The constructor.
  \<^verbatim>\<open>
   XrdSrvBuffer(char *bp=0, int sz=0, bool dup=0) {
      if (dup && bp && sz > 0) {
         fMembuf = (char *)malloc(sz);
         if (fMembuf) {
            memcpy(fMembuf, bp, sz);
            fBuff = fMembuf;
            fSize = sz;
         }
      } else {
         fBuff = fMembuf = bp;
         fSize = sz;
      }}
  \<close>
  The members have no initialiser, so a member the constructor does not assign keeps
  whatever the storage of the object held before: that storage is the argument \<open>raw\<close>.
  The argument \<open>m\<close> is the pointer \<^verbatim>\<open>malloc\<close> returns when it is called (0 when the
  allocation fails).
\<close>

definition XrdSrvBuffer_ctor ::
  "XrdSrvBuffer \<Rightarrow> addr \<Rightarrow> heap \<Rightarrow> addr \<Rightarrow> int \<Rightarrow> bool \<Rightarrow> XrdSrvBuffer \<times> heap" where
  "XrdSrvBuffer_ctor raw m h bp sz dup =
     (if dup \<and> bp \<noteq> 0 \<and> sz > 0 then
        (if m \<noteq> 0 then
           (raw\<lparr>fMembuf := m, fBuff := m, fSize := sz\<rparr>,
            h\<lparr>blocks := insert m (blocks h), bytes := memcpy (bytes h) m bp (nat sz)\<rparr>)
         else (raw\<lparr>fMembuf := 0\<rparr>, h))
      else (raw\<lparr>fBuff := bp, fMembuf := bp, fSize := sz\<rparr>, h))"

text \<open>\<^verbatim>\<open>~XrdSrvBuffer() {if (fMembuf) free(fMembuf);}\<close>\<close>

definition XrdSrvBuffer_dtor :: "XrdSrvBuffer \<Rightarrow> heap \<Rightarrow> error + heap" where
  "XrdSrvBuffer_dtor b h = (if fMembuf b \<noteq> 0 then free (fMembuf b) h else Inr h)"

text \<open>
  \<^verbatim>\<open>delete a\<close> for a non-null pointer to an \<^verbatim>\<open>XrdSrvBuffer\<close>: the destructor runs on the
  object, then the object is released.
\<close>

definition delete_XrdSrvBuffer :: "addr \<Rightarrow> heap \<Rightarrow> error + heap" where
  "delete_XrdSrvBuffer a h =
     (case holders h a of
        None \<Rightarrow> Inl (InvalidDelete a)
      | Some b \<Rightarrow>
          (case XrdSrvBuffer_dtor b h of
             Inl e \<Rightarrow> Inl e
           | Inr h' \<Rightarrow> Inr (h'\<lparr>holders := (holders h')(a := None)\<rparr>)))"

text \<open>
  The invariant the data model gives for a holder: the length is positive exactly when
  the buffer pointer is not null.
\<close>

definition holder_inv :: "XrdSrvBuffer \<Rightarrow> bool" where
  "holder_inv b = ((0 < fSize b) = (fBuff b \<noteq> 0))"

subsection \<open>XrdProofServProxy\<close>

text \<open>
  The members of the proxy that the operations below read or write:
  \<^verbatim>\<open>
   std::vector<XrdClientID *> fClients;  // Attached clients stream ids
   std::list<XrdProofWorker *> fWorkers; // Workers assigned to the session
   XrdSrvBuffer             *fQueryNum;  // Msg with sequential number of currebt query
   XrdSrvBuffer             *fStartMsg;  // Msg with start processing info
   XrdSrvBuffer             *fRequirements;  // Buffer with session requirements
  \<close>
  The other members stay in the extension of the record: every operation is defined on
  the record scheme and so leaves them as they are. Each inline operation first builds
  an \<^verbatim>\<open>XrdOucMutexHelper\<close> on \<open>fMutex\<close>, which holds the lock until the operation
  returns; the model is of one thread and leaves the lock out.
\<close>

record XrdProofServProxy =
  fClients :: "addr list"
  fWorkers :: "addr list"
  fQueryNum :: addr
  fStartMsg :: addr
  fRequirements :: addr

text \<open>The state an operation runs in: the proxy object and the heap.\<close>

type_synonym 'a state = "'a XrdProofServProxy_scheme \<times> heap"

subsection \<open>Buffered messages of the proxy\<close>

text \<open>
  \<^verbatim>\<open>
   inline XrdSrvBuffer *QueryNum() const { XrdOucMutexHelper mhp(fMutex); return fQueryNum; }
   inline XrdSrvBuffer *Requirements() const { XrdOucMutexHelper mhp(fMutex); return fRequirements; }
   inline XrdSrvBuffer *StartMsg() const { XrdOucMutexHelper mhp(fMutex); return fStartMsg; }
  \<close>
\<close>

fun QueryNum :: "'a state \<Rightarrow> addr" where
  "QueryNum (p, h) = fQueryNum p"

fun Requirements :: "'a state \<Rightarrow> addr" where
  "Requirements (p, h) = fRequirements p"

fun StartMsg :: "'a state \<Rightarrow> addr" where
  "StartMsg (p, h) = fStartMsg p"

text \<open>
  \<^verbatim>\<open>
   inline void SetQueryNum(XrdSrvBuffer *qn) { XrdOucMutexHelper mhp(fMutex); fQueryNum = qn; }
   inline void SetRequirements(XrdSrvBuffer *rq)
                          { XrdOucMutexHelper mhp(fMutex); fRequirements = rq; }
   inline void SetStartMsg(XrdSrvBuffer *sm) { XrdOucMutexHelper mhp(fMutex); fStartMsg = sm; }
  \<close>
\<close>

fun SetQueryNum :: "addr \<Rightarrow> 'a state \<Rightarrow> 'a state" where
  "SetQueryNum qn (p, h) = (p\<lparr>fQueryNum := qn\<rparr>, h)"

fun SetRequirements :: "addr \<Rightarrow> 'a state \<Rightarrow> 'a state" where
  "SetRequirements rq (p, h) = (p\<lparr>fRequirements := rq\<rparr>, h)"

fun SetStartMsg :: "addr \<Rightarrow> 'a state \<Rightarrow> 'a state" where
  "SetStartMsg sm (p, h) = (p\<lparr>fStartMsg := sm\<rparr>, h)"

text \<open>
  \<^verbatim>\<open>
   void DeleteQueryNum()
        { XrdOucMutexHelper mhp(fMutex); if (fQueryNum) delete fQueryNum; fQueryNum = 0;}
   void DeleteStartMsg()
        { XrdOucMutexHelper mhp(fMutex); if (fStartMsg) delete fStartMsg; fStartMsg = 0;}
  \<close>
\<close>

fun DeleteQueryNum :: "'a state \<Rightarrow> error + 'a state" where
  "DeleteQueryNum (p, h) =
     (if fQueryNum p \<noteq> 0 then
        (case delete_XrdSrvBuffer (fQueryNum p) h of
           Inl e \<Rightarrow> Inl e
         | Inr h' \<Rightarrow> Inr (p\<lparr>fQueryNum := 0\<rparr>, h'))
      else Inr (p\<lparr>fQueryNum := 0\<rparr>, h))"

fun DeleteStartMsg :: "'a state \<Rightarrow> error + 'a state" where
  "DeleteStartMsg (p, h) =
     (if fStartMsg p \<noteq> 0 then
        (case delete_XrdSrvBuffer (fStartMsg p) h of
           Inl e \<Rightarrow> Inl e
         | Inr h' \<Rightarrow> Inr (p\<lparr>fStartMsg := 0\<rparr>, h'))
      else Inr (p\<lparr>fStartMsg := 0\<rparr>, h))"

text \<open>
  When \<^verbatim>\<open>delete a\<close> is defined: the object at \<open>a\<close> is live and the block its destructor
  frees, if any, is live.
\<close>

definition deletable :: "addr \<Rightarrow> heap \<Rightarrow> bool" where
  "deletable a h =
     (case holders h a of
        None \<Rightarrow> False
      | Some b \<Rightarrow> fMembuf b = 0 \<or> fMembuf b \<in> blocks h)"

subsection \<open>The workers of the proxy\<close>

text \<open>
  \<^verbatim>\<open>
   int  GetNWorkers() { XrdOucMutexHelper mhp(fMutex); return (int) fWorkers.size(); }
   void AddWorker(XrdProofWorker *w) { XrdOucMutexHelper mhp(fMutex); fWorkers.push_back(w); }
   void RemoveWorker(XrdProofWorker *w) { XrdOucMutexHelper mhp(fMutex); fWorkers.remove(w); }
  \<close>
  \<^verbatim>\<open>(int)\<close> keeps the low 32 bits of the size and reads them as two's complement.
  \<^verbatim>\<open>std::list::remove\<close> erases every element equal to its argument.
\<close>

fun GetNWorkers :: "'a state \<Rightarrow> int" where
  "GetNWorkers (p, h) = sint (word_of_nat (length (fWorkers p)) :: 32 word)"

fun AddWorker :: "addr \<Rightarrow> 'a state \<Rightarrow> 'a state" where
  "AddWorker w (p, h) = (p\<lparr>fWorkers := fWorkers p @ [w]\<rparr>, h)"

fun RemoveWorker :: "addr \<Rightarrow> 'a state \<Rightarrow> 'a state" where
  "RemoveWorker w (p, h) = (p\<lparr>fWorkers := removeAll w (fWorkers p)\<rparr>, h)"

subsection \<open>Pointers to the collections of the proxy\<close>

text \<open>
  \<^verbatim>\<open>
   inline std::vector<XrdClientID *> *Clients() const
        { XrdOucMutexHelper mhp(fMutex); return (std::vector<XrdClientID *> *)&fClients; }
   inline std::list<XrdProofWorker *> *Workers() const
        { XrdOucMutexHelper mhp(fMutex); return (std::list<XrdProofWorker *> *)&fWorkers; }
  \<close>
  Both return the address of a data member of the proxy itself, as a pointer to a
  non-const collection. \<open>member_ptr\<close> is the type of these addresses.
\<close>

datatype member_ptr = Addr_fClients | Addr_fWorkers

fun Clients :: "'a state \<Rightarrow> member_ptr" where
  "Clients (p, h) = Addr_fClients"

fun Workers :: "'a state \<Rightarrow> member_ptr" where
  "Workers (p, h) = Addr_fWorkers"

text \<open>
  What code outside the proxy can do with such a pointer \<open>r\<close>: read the collection
  (\<^verbatim>\<open>*r\<close>) and assign to it (\<^verbatim>\<open>*r = xs\<close>); \<^verbatim>\<open>r->push_back(x)\<close> is the assignment of
  the collection with \<open>x\<close> appended. None of them calls an operation of the proxy.
\<close>

fun deref :: "member_ptr \<Rightarrow> 'a state \<Rightarrow> addr list" where
  "deref Addr_fClients (p, h) = fClients p"
| "deref Addr_fWorkers (p, h) = fWorkers p"

fun assign :: "member_ptr \<Rightarrow> addr list \<Rightarrow> 'a state \<Rightarrow> 'a state" where
  "assign Addr_fClients xs (p, h) = (p\<lparr>fClients := xs\<rparr>, h)"
| "assign Addr_fWorkers xs (p, h) = (p\<lparr>fWorkers := xs\<rparr>, h)"

definition push_back :: "member_ptr \<Rightarrow> addr \<Rightarrow> 'a state \<Rightarrow> 'a state" where
  "push_back r x s = assign r (deref r s @ [x]) s"

subsection \<open>The client-handle sequence\<close>

text \<open>
  The header only declares
  \<^verbatim>\<open>
   XrdClientID        *GetClientID(int cid);
   int                 GetFreeID();
   int                 GetNClients();
  \<close>
  Their bodies are in \<^verbatim>\<open>XrdProofServProxy.cxx\<close>, and the code that attaches and
  detaches a client is in the protocol class; neither is among the sources. The
  definitions of this subsection follow the specification, which describes them on the
  client-handle sequence: the sequence of the client handles, slot by slot.
\<close>

text \<open>
  Modelled from the spec: the scan of \<^verbatim>\<open>GetFreeID\<close> (body missing), "scans the
  client-handle sequence for the first invalid slot": the index of the first handle that
  is not valid, if there is one.
\<close>

fun first_invalid :: "XrdClientID list \<Rightarrow> nat option" where
  "first_invalid [] = None"
| "first_invalid (c # cs) =
     (if \<not> IsValid c then Some 0 else map_option Suc (first_invalid cs))"

text \<open>
  Modelled from the spec: \<^verbatim>\<open>GetFreeID\<close> (body missing), "if found, returns its index;
  otherwise appends a new invalid slot and returns the new index". The result is the
  index and the sequence after the call.
\<close>

definition GetFreeID :: "XrdClientID list \<Rightarrow> nat \<times> XrdClientID list" where
  "GetFreeID t =
     (case first_invalid t of
        Some i \<Rightarrow> (i, t)
      | None \<Rightarrow> (length t, t @ [XrdClientID_ctor 0 0]))"

text \<open>
  Modelled from the spec: \<^verbatim>\<open>GetNClients\<close> (body missing), the "count of slots whose
  handle is currently valid": a loop over the slots with a counter.
\<close>

fun GetNClients :: "XrdClientID list \<Rightarrow> nat" where
  "GetNClients [] = 0"
| "GetNClients (c # cs) = (if IsValid c then Suc (GetNClients cs) else GetNClients cs)"

text \<open>
  Modelled from the spec: attaching a client (code missing) takes a free slot from
  \<^verbatim>\<open>GetFreeID\<close> and stores the handle of the client there, the pair of its connection and
  its stream id. The result is the index of the slot and the sequence afterwards.
\<close>

definition attach :: "addr \<Rightarrow> 16 word \<Rightarrow> XrdClientID list \<Rightarrow> nat \<times> XrdClientID list" where
  "attach pt sid t = (case GetFreeID t of (i, t') \<Rightarrow> (i, t'[i := XrdClientID_ctor pt sid]))"

text \<open>
  Modelled from the spec: detaching a client (code missing) "resets its slot to invalid
  rather than removing it". For an index out of range the lookup gives "a sentinel/invalid
  handle" and "never grows the sequence", so the sequence stays as it is.
\<close>

definition detach :: "nat \<Rightarrow> XrdClientID list \<Rightarrow> XrdClientID list" where
  "detach k t = (if k < length t then t[k := Reset (t ! k)] else t)"

text \<open>
  Modelled from the spec: the operations of a "sequence of attach/detach operations"
  (their code is missing): attaching a connection with a stream id, detaching the client
  at an index.
\<close>

datatype client_op = Attach addr "16 word" | Detach nat

text \<open>
  Modelled from the spec: one attach or detach operation (code missing) on the
  client-handle sequence.
\<close>

fun run_op :: "client_op \<Rightarrow> XrdClientID list \<Rightarrow> XrdClientID list" where
  "run_op (Attach pt sid) t = snd (attach pt sid t)"
| "run_op (Detach k) t = detach k t"

text \<open>
  Modelled from the spec: a "sequence of attach/detach operations" (code missing), run
  from left to right on the client-handle sequence.
\<close>

fun run_ops :: "client_op list \<Rightarrow> XrdClientID list \<Rightarrow> XrdClientID list" where
  "run_ops [] t = t"
| "run_ops (x # xs) t = run_ops xs (run_op x t)"

subsection \<open>Example states\<close>

text \<open>
  A heap with one live holder, at address 1, that owns the block at address 10; and a
  proxy whose start message is that holder and whose worker list holds worker 7 twice.
\<close>

definition heap0 :: heap where
  "heap0 =
     \<lparr>blocks = {10}, bytes = (\<lambda>a. 0),
      holders = [1 \<mapsto> \<lparr>fSize = 4, fBuff = 10, fMembuf = 10\<rparr>]\<rparr>"

definition proxy0 :: XrdProofServProxy where
  "proxy0 =
     \<lparr>fClients = [], fWorkers = [7, 8, 7], fQueryNum = 0, fStartMsg = 1, fRequirements = 0\<rparr>"

section \<open>Client handles\<close>

text \<open>
  Claim C7. A client handle is valid exactly when its connection pointer \<open>fP\<close> is not
  null. \<open>Reset\<close> gives back a handle (the same object, with both members zeroed, which is
  what the default constructor builds) that is not valid.
\<close>

theorem C7_IsValid_Reset:
  "IsValid c = (fP c \<noteq> 0) \<and> IsValid (Reset c) = False \<and> Reset c = XrdClientID_ctor 0 0"
  by (simp add: IsValid_def Reset_def XrdClientID_ctor_def)

theorem C7_IsValid_Reset_witness:
  "IsValid (XrdClientID_ctor 5 3) = True \<and> IsValid (Reset (XrdClientID_ctor 5 3)) = False \<and>
   Reset (XrdClientID_ctor 5 3) = XrdClientID_ctor 0 0"
  using C7_IsValid_Reset [of "XrdClientID_ctor 5 3"]
  by (simp add: XrdClientID_ctor_def IsValid_def)

section \<open>The worker pool\<close>

text \<open>The cast to \<^verbatim>\<open>int\<close> is exact below \<open>2 ^ 31\<close>.\<close>

lemma sint_length: "n < 2 ^ 31 \<Longrightarrow> sint (word_of_nat n :: 32 word) = int n"
proof -
  assume a: "n < 2 ^ 31"
  have "int n < 2 ^ 31"
    using a by (metis of_nat_less_iff of_nat_numeral of_nat_power)
  then have "signed_take_bit 31 (int n) = int n"
    by (simp add: signed_take_bit_int_eq_self)
  then show ?thesis
    by (simp add: signed_of_nat)
qed

lemma length_removeAll_count: "length (removeAll w xs) + count_list xs w = length xs"
  by (induction xs) auto

lemma count_list_removeAll_other:
  "v \<noteq> w \<Longrightarrow> count_list (removeAll w xs) v = count_list xs v"
  by (induction xs) auto

text \<open>
  Claim C1, as stated, fails: adding a worker that is already in the pool does change
  \<open>GetNWorkers\<close>. Worker 7 is in the pool of \<open>proxy0\<close>; after adding it again the
  count is another and the pool holds it three times.
\<close>

theorem C1_AddWorker_member_counterexample:
  "7 \<in> set (fWorkers (fst (proxy0, heap0))) \<and>
   GetNWorkers (AddWorker 7 (proxy0, heap0)) \<noteq> GetNWorkers (proxy0, heap0) \<and>
   count_list (fWorkers (fst (AddWorker 7 (proxy0, heap0)))) 7 = 3"
  by (simp add: proxy0_def)

text \<open>
  Claim C1, amended. \<open>AddWorker w\<close> appends \<open>w\<close> to the worker list whether or not \<open>w\<close>
  is in it already: the number of occurrences of \<open>w\<close> grows by one and, as long as the
  new size fits an \<^verbatim>\<open>int\<close>, so does \<open>GetNWorkers\<close>.
\<close>

theorem C1_AddWorker_appends:
  "fWorkers (fst (AddWorker w s)) = fWorkers (fst s) @ [w] \<and>
   count_list (fWorkers (fst (AddWorker w s))) w = Suc (count_list (fWorkers (fst s)) w) \<and>
   (length (fWorkers (fst s)) < 2 ^ 31 - 1 \<longrightarrow>
      GetNWorkers (AddWorker w s) = GetNWorkers s + 1)"
proof (cases s)
  case (Pair p h)
  have "sint (word_of_nat (Suc (length (fWorkers p))) :: 32 word) =
        sint (word_of_nat (length (fWorkers p)) :: 32 word) + 1"
    if a: "length (fWorkers p) < 2 ^ 31 - 1"
  proof -
    from a have "Suc (length (fWorkers p)) < 2 ^ 31" and "length (fWorkers p) < 2 ^ 31"
      by simp_all
    then show ?thesis
      using sint_length [of "Suc (length (fWorkers p))"] sint_length [of "length (fWorkers p)"]
      by simp
  qed
  with Pair show ?thesis by simp
qed

theorem C1_AddWorker_appends_witness:
  "fWorkers (fst (AddWorker 7 (proxy0, heap0))) = [7, 8, 7, 7] \<and>
   count_list (fWorkers (fst (AddWorker 7 (proxy0, heap0)))) 7 = 3 \<and>
   GetNWorkers (AddWorker 7 (proxy0, heap0)) = GetNWorkers (proxy0, heap0) + 1"
  using C1_AddWorker_appends [of 7 "(proxy0, heap0)"]
  by (simp add: proxy0_def)

text \<open>
  Claim C6. Removing a worker that is not in the pool changes nothing: the proxy and
  the heap are the same afterwards, and so is \<open>GetNWorkers\<close>. The operation has no
  error result.
\<close>

theorem C6_RemoveWorker_absent:
  "w \<notin> set (fWorkers (fst s)) \<Longrightarrow>
   RemoveWorker w s = s \<and> GetNWorkers (RemoveWorker w s) = GetNWorkers s"
  by (cases s) simp

theorem C6_RemoveWorker_absent_witness:
  "5 \<notin> set (fWorkers (fst (proxy0, heap0))) \<and>
   RemoveWorker 5 (proxy0, heap0) = (proxy0, heap0) \<and>
   GetNWorkers (RemoveWorker 5 (proxy0, heap0)) = 3"
  using C6_RemoveWorker_absent [of 5 "(proxy0, heap0)"]
  by (simp add: proxy0_def)

text \<open>
  Claim C10. \<open>RemoveWorker w\<close> removes every occurrence of \<open>w\<close>: when the pool holds
  \<open>w\<close> \<open>n\<close> times (and its size fits an \<^verbatim>\<open>int\<close>), no occurrence is left afterwards and
  \<open>GetNWorkers\<close> is smaller by \<open>n\<close>; the occurrences of the other workers are kept.
\<close>

theorem C10_RemoveWorker_all:
  "count_list (fWorkers (fst s)) w = n \<Longrightarrow> length (fWorkers (fst s)) < 2 ^ 31 \<Longrightarrow>
   w \<notin> set (fWorkers (fst (RemoveWorker w s))) \<and>
   GetNWorkers (RemoveWorker w s) = GetNWorkers s - int n \<and>
   (\<forall>v. v \<noteq> w \<longrightarrow>
      count_list (fWorkers (fst (RemoveWorker w s))) v = count_list (fWorkers (fst s)) v)"
proof (cases s)
  case (Pair p h)
  assume n: "count_list (fWorkers (fst s)) w = n"
    and len: "length (fWorkers (fst s)) < 2 ^ 31"
  let ?ws = "fWorkers p"
  have sum: "length (removeAll w ?ws) + n = length ?ws"
    using n Pair length_removeAll_count [of w ?ws] by simp
  have l1: "length ?ws < 2 ^ 31"
    using len Pair by simp
  have l2: "length (removeAll w ?ws) < 2 ^ 31"
    using sum l1 by linarith
  have "sint (word_of_nat (length (removeAll w ?ws)) :: 32 word) =
        sint (word_of_nat (length ?ws) :: 32 word) - int n"
    using sint_length [OF l1] sint_length [OF l2] sum by linarith
  with Pair show ?thesis
    by (simp add: count_list_removeAll_other)
qed

theorem C10_RemoveWorker_all_witness:
  "count_list (fWorkers (fst (proxy0, heap0))) 7 = 2 \<and>
   length (fWorkers (fst (proxy0, heap0))) < 2 ^ 31 \<and>
   fWorkers (fst (RemoveWorker 7 (proxy0, heap0))) = [8] \<and>
   GetNWorkers (proxy0, heap0) = 3 \<and>
   GetNWorkers (RemoveWorker 7 (proxy0, heap0)) = 1"
  using C10_RemoveWorker_all [of "(proxy0, heap0)" 7 2]
  by (simp add: proxy0_def)

section \<open>Buffered message holders\<close>

text \<open>
  Claim C2, as stated, fails: built from a null pointer, size 5 and no copy, the holder
  has a positive length and a null buffer pointer.
\<close>

theorem C2_ctor_null_positive_counterexample:
  "0 < fSize (fst (XrdSrvBuffer_ctor \<lparr>fSize = 0, fBuff = 0, fMembuf = 0\<rparr> 0 heap0 0 5 False)) \<and>
   fBuff (fst (XrdSrvBuffer_ctor \<lparr>fSize = 0, fBuff = 0, fMembuf = 0\<rparr> 0 heap0 0 5 False)) = 0 \<and>
   \<not> holder_inv (fst (XrdSrvBuffer_ctor \<lparr>fSize = 0, fBuff = 0, fMembuf = 0\<rparr> 0 heap0 0 5 False))"
  by (simp add: XrdSrvBuffer_ctor_def holder_inv_def)

text \<open>
  Claim C2, amended. The constructor does not check its arguments. When the allocation
  of the copy, if one is asked for, succeeds, the holder stores the size it was given and
  either the pointer it was given or the pointer to the copy; so it satisfies the
  invariant (length positive exactly when the buffer pointer is not null) exactly when
  the arguments do.
\<close>

theorem C2_ctor_keeps_arguments:
  "(dup \<and> bp \<noteq> 0 \<and> 0 < sz \<longrightarrow> m \<noteq> 0) \<Longrightarrow>
   fSize (fst (XrdSrvBuffer_ctor raw m h bp sz dup)) = sz \<and>
   fBuff (fst (XrdSrvBuffer_ctor raw m h bp sz dup)) =
     (if dup \<and> bp \<noteq> 0 \<and> 0 < sz then m else bp) \<and>
   holder_inv (fst (XrdSrvBuffer_ctor raw m h bp sz dup)) = ((0 < sz) = (bp \<noteq> 0))"
  by (auto simp add: XrdSrvBuffer_ctor_def holder_inv_def)

theorem C2_ctor_keeps_arguments_witness:
  "(20::nat) \<noteq> 0 \<and>
   fst (XrdSrvBuffer_ctor \<lparr>fSize = 0, fBuff = 0, fMembuf = 0\<rparr> 20 heap0 10 4 True) =
     \<lparr>fSize = 4, fBuff = 20, fMembuf = 20\<rparr> \<and>
   holder_inv (fst (XrdSrvBuffer_ctor \<lparr>fSize = 0, fBuff = 0, fMembuf = 0\<rparr> 20 heap0 10 4 True))"
  using C2_ctor_keeps_arguments [of True 10 4 20 "\<lparr>fSize = 0, fBuff = 0, fMembuf = 0\<rparr>" heap0]
  by (simp add: XrdSrvBuffer_ctor_def)

text \<open>
  Claim C3, as stated, fails: the start message of \<open>proxy0\<close> is the holder at address 1;
  after \<open>SetStartMsg 2\<close> the getter returns 2, and the holder at address 1 and the block
  it owns are still live: nothing was freed.
\<close>

theorem C3_SetStartMsg_keeps_old_counterexample:
  "StartMsg (proxy0, heap0) = 1 \<and> holders (snd (proxy0, heap0)) 1 \<noteq> None \<and>
   StartMsg (SetStartMsg 2 (proxy0, heap0)) = 2 \<and>
   holders (snd (SetStartMsg 2 (proxy0, heap0))) 1 \<noteq> None \<and>
   blocks (snd (SetStartMsg 2 (proxy0, heap0))) = {10}"
  by (simp add: proxy0_def heap0_def)

text \<open>
  Claim C3, amended. Each of \<open>SetStartMsg\<close>, \<open>SetRequirements\<close> and \<open>SetQueryNum\<close>
  stores the pointer it is given, and the getter of the field returns it afterwards; the
  heap is left as it is, so a holder stored before is not freed by the replacement.
\<close>

theorem C3_setters_store_only:
  "StartMsg (SetStartMsg x s) = x \<and> snd (SetStartMsg x s) = snd s \<and>
   Requirements (SetRequirements x s) = x \<and> snd (SetRequirements x s) = snd s \<and>
   QueryNum (SetQueryNum x s) = x \<and> snd (SetQueryNum x s) = snd s"
  by (cases s) simp

theorem C3_setters_store_only_witness:
  "StartMsg (SetStartMsg 2 (proxy0, heap0)) = 2 \<and> snd (SetStartMsg 2 (proxy0, heap0)) = heap0 \<and>
   Requirements (SetRequirements 2 (proxy0, heap0)) = 2 \<and>
   QueryNum (SetQueryNum 2 (proxy0, heap0)) = 2"
  using C3_setters_store_only [of 2 "(proxy0, heap0)"]
  by simp

text \<open>What \<^verbatim>\<open>delete\<close> returns: the new heap when it is defined, an error when it is not.\<close>

lemma delete_XrdSrvBuffer_cases:
  "(case delete_XrdSrvBuffer a h of
      Inr h' \<Rightarrow> deletable a h \<and> holders h' a = None
    | Inl e \<Rightarrow> \<not> deletable a h)"
  by (auto simp add: delete_XrdSrvBuffer_def deletable_def XrdSrvBuffer_dtor_def free_def
      split: option.splits sum.splits if_splits)

text \<open>
  Claim C8. \<open>DeleteQueryNum\<close> and \<open>DeleteStartMsg\<close> return a state in which the getter
  of the field gives the null pointer, and in which the holder that was stored, if any,
  is no longer live. They fail only where \<^verbatim>\<open>delete\<close> is undefined: the field is not null
  and does not point to a live holder whose block can be freed.
\<close>

theorem C8_Delete_resets:
  "(case DeleteQueryNum s of
      Inr s' \<Rightarrow> QueryNum s' = 0 \<and> (QueryNum s = 0 \<or> holders (snd s') (QueryNum s) = None)
    | Inl e \<Rightarrow> QueryNum s \<noteq> 0 \<and> \<not> deletable (QueryNum s) (snd s)) \<and>
   (case DeleteStartMsg s of
      Inr s' \<Rightarrow> StartMsg s' = 0 \<and> (StartMsg s = 0 \<or> holders (snd s') (StartMsg s) = None)
    | Inl e \<Rightarrow> StartMsg s \<noteq> 0 \<and> \<not> deletable (StartMsg s) (snd s))"
proof (cases s)
  case (Pair p h)
  show ?thesis
    using delete_XrdSrvBuffer_cases [of "fQueryNum p" h]
      delete_XrdSrvBuffer_cases [of "fStartMsg p" h]
    unfolding Pair
    by (auto split: sum.splits)
qed

theorem C8_Delete_resets_witness:
  "(case DeleteQueryNum (proxy0, heap0) of
      Inr s' \<Rightarrow> QueryNum s' = 0 \<and> snd s' = heap0
    | Inl e \<Rightarrow> False) \<and>
   (case DeleteStartMsg (proxy0, heap0) of
      Inr s' \<Rightarrow> StartMsg s' = 0 \<and> holders (snd s') 1 = None \<and> blocks (snd s') = {}
    | Inl e \<Rightarrow> False)"
  using C8_Delete_resets [of "(proxy0, heap0)"]
  by (simp add: proxy0_def heap0_def delete_XrdSrvBuffer_def XrdSrvBuffer_dtor_def free_def)

section \<open>Pointers handed out by the proxy\<close>

text \<open>
  Claim C9, as stated, fails: \<open>Workers\<close> and \<open>Clients\<close> hand out pointers through which
  code outside the proxy changes the worker list and the client vector. With the pointer
  from \<open>Workers\<close>, a \<^verbatim>\<open>push_back\<close> makes \<open>GetNWorkers\<close> go from 3 to 4 and an assignment
  empties the pool; with the pointer from \<open>Clients\<close>, a \<^verbatim>\<open>push_back\<close> adds a slot.
  \<open>AddWorker\<close> and \<open>RemoveWorker\<close> are not called.
\<close>

theorem C9_Workers_alias_counterexample:
  "GetNWorkers (proxy0, heap0) = 3 \<and>
   GetNWorkers (push_back (Workers (proxy0, heap0)) 9 (proxy0, heap0)) = 4 \<and>
   fWorkers (fst (assign (Workers (proxy0, heap0)) [] (proxy0, heap0))) = [] \<and>
   fClients (fst (push_back (Clients (proxy0, heap0)) 30 (proxy0, heap0))) = [30]"
  by (simp add: proxy0_def push_back_def)

text \<open>
  Claim C9, amended. \<open>Workers\<close> and \<open>Clients\<close> return pointers to the worker list and to
  the client vector of the proxy themselves, not to copies: reading through the pointer
  gives the collection of the proxy, and after an assignment through it the proxy holds
  the assigned collection (and \<open>GetNWorkers\<close> counts it).
\<close>

theorem C9_pointers_to_members:
  "deref (Workers s) s = fWorkers (fst s) \<and> deref (Clients s) s = fClients (fst s) \<and>
   fWorkers (fst (assign (Workers s) xs s)) = xs \<and>
   fClients (fst (assign (Clients s) xs s)) = xs \<and>
   GetNWorkers (assign (Workers s) xs s) = sint (word_of_nat (length xs) :: 32 word)"
  by (cases s) simp

theorem C9_pointers_to_members_witness:
  "deref (Workers (proxy0, heap0)) (proxy0, heap0) = [7, 8, 7] \<and>
   fWorkers (fst (assign (Workers (proxy0, heap0)) [4] (proxy0, heap0))) = [4] \<and>
   GetNWorkers (assign (Workers (proxy0, heap0)) [4] (proxy0, heap0)) = 1"
  using C9_pointers_to_members [of "(proxy0, heap0)" "[4]"]
  by (simp add: proxy0_def)

section \<open>The client-handle sequence\<close>

text \<open>Where the scan stops, and when it finds nothing.\<close>

lemma first_invalid_Some:
  "first_invalid t = Some i \<Longrightarrow> i < length t \<and> \<not> IsValid (t ! i) \<and> (\<forall>j<i. IsValid (t ! j))"
proof (induction t arbitrary: i)
  case Nil
  then show ?case by simp
next
  case (Cons c cs)
  show ?case
  proof (cases "IsValid c")
    case False
    with Cons.prems show ?thesis by simp
  next
    case True
    with Cons.prems obtain i' where i': "first_invalid cs = Some i'" "i = Suc i'"
      by auto
    from Cons.IH [OF i'(1)] True i'(2) show ?thesis
      by (auto simp add: nth_Cons split: nat.splits)
  qed
qed

lemma first_invalid_None: "(first_invalid t = None) = (\<forall>j<length t. IsValid (t ! j))"
proof (induction t)
  case Nil
  then show ?case by simp
next
  case (Cons c cs)
  then show ?case
    by (auto simp add: nth_Cons All_less_Suc2 split: nat.splits)
qed

lemma first_invalid_least:
  "i < length t \<Longrightarrow> \<not> IsValid (t ! i) \<Longrightarrow> \<exists>j\<le>i. first_invalid t = Some j"
proof -
  assume a: "i < length t" "\<not> IsValid (t ! i)"
  then have "first_invalid t \<noteq> None" by (auto simp add: first_invalid_None)
  then obtain j where j: "first_invalid t = Some j" by auto
  from first_invalid_Some [OF j] a have "j \<le> i"
    by (meson not_le_imp_less)
  with j show ?thesis by blast
qed

lemma not_IsValid_Reset: "\<not> IsValid (Reset c)"
  by (simp add: IsValid_def Reset_def)

text \<open>
  Claim C4. When some slot is invalid, \<open>GetFreeID\<close> leaves the sequence as it is and
  returns the index of the first invalid slot: that slot is invalid and every slot before
  it is valid. When no slot is invalid, it appends one new invalid slot and returns its
  index, the old length. After the client at index \<open>k\<close> is detached, the next
  \<open>GetFreeID\<close> appends nothing and returns no index larger than \<open>k\<close>; it returns \<open>k\<close>
  itself when the slots before \<open>k\<close> are all valid.
\<close>

theorem C4_GetFreeID:
  "(if \<exists>j<length t. \<not> IsValid (t ! j)
    then snd (GetFreeID t) = t \<and> fst (GetFreeID t) < length t \<and>
         \<not> IsValid (t ! fst (GetFreeID t)) \<and> (\<forall>j<fst (GetFreeID t). IsValid (t ! j))
    else GetFreeID t = (length t, t @ [XrdClientID_ctor 0 0]) \<and>
         \<not> IsValid (snd (GetFreeID t) ! fst (GetFreeID t))) \<and>
   (k < length t \<longrightarrow>
      fst (GetFreeID (detach k t)) \<le> k \<and> snd (GetFreeID (detach k t)) = detach k t \<and>
      ((\<forall>j<k. IsValid (t ! j)) \<longrightarrow> fst (GetFreeID (detach k t)) = k))"
proof -
  have A: "snd (GetFreeID t) = t \<and> fst (GetFreeID t) < length t \<and>
         \<not> IsValid (t ! fst (GetFreeID t)) \<and> (\<forall>j<fst (GetFreeID t). IsValid (t ! j))"
    if "\<exists>j<length t. \<not> IsValid (t ! j)"
  proof -
    from that obtain i where "first_invalid t = Some i"
      using first_invalid_None [of t] by auto
    then show ?thesis
      using first_invalid_Some [of t i] by (simp add: GetFreeID_def)
  qed
  have B: "GetFreeID t = (length t, t @ [XrdClientID_ctor 0 0]) \<and>
         \<not> IsValid (snd (GetFreeID t) ! fst (GetFreeID t))"
    if "\<not> (\<exists>j<length t. \<not> IsValid (t ! j))"
  proof -
    from that have "first_invalid t = None"
      by (simp add: first_invalid_None)
    then show ?thesis
      by (simp add: GetFreeID_def IsValid_def XrdClientID_ctor_def)
  qed
  have C: "fst (GetFreeID (detach k t)) \<le> k \<and> snd (GetFreeID (detach k t)) = detach k t \<and>
      ((\<forall>j<k. IsValid (t ! j)) \<longrightarrow> fst (GetFreeID (detach k t)) = k)"
    if k: "k < length t"
  proof -
    let ?d = "detach k t"
    have d: "?d = t[k := Reset (t ! k)]" using k by (simp add: detach_def)
    have "k < length ?d" "\<not> IsValid (?d ! k)"
      using k by (simp_all add: d not_IsValid_Reset)
    then obtain j where j: "j \<le> k" "first_invalid ?d = Some j"
      using first_invalid_least [of k ?d] by blast
    have "j = k" if v: "\<forall>j<k. IsValid (t ! j)"
    proof (rule ccontr)
      assume "j \<noteq> k"
      with j have lt: "j < k" by simp
      then have "?d ! j = t ! j" by (simp add: d)
      with v lt have "IsValid (?d ! j)" by simp
      with first_invalid_Some [OF j(2)] show False by simp
    qed
    with j show ?thesis by (simp add: GetFreeID_def)
  qed
  show ?thesis
  proof (cases "\<exists>j<length t. \<not> IsValid (t ! j)")
    case True
    with A C show ?thesis by (simp only: if_True) blast
  next
    case False
    with B C show ?thesis by (simp only: if_False) blast
  qed
qed

theorem C4_GetFreeID_witness:
  "GetFreeID [XrdClientID_ctor 3 1, XrdClientID_ctor 0 0, XrdClientID_ctor 4 2, XrdClientID_ctor 0 0] =
     (1, [XrdClientID_ctor 3 1, XrdClientID_ctor 0 0, XrdClientID_ctor 4 2, XrdClientID_ctor 0 0]) \<and>
   GetFreeID [XrdClientID_ctor 3 1, XrdClientID_ctor 4 2] =
     (2, [XrdClientID_ctor 3 1, XrdClientID_ctor 4 2, XrdClientID_ctor 0 0]) \<and>
   fst (GetFreeID (detach 1 [XrdClientID_ctor 3 1, XrdClientID_ctor 4 2, XrdClientID_ctor 5 3])) = 1"
  using C4_GetFreeID [of "[XrdClientID_ctor 3 1, XrdClientID_ctor 0 0, XrdClientID_ctor 4 2, XrdClientID_ctor 0 0]" 0]
    C4_GetFreeID [of "[XrdClientID_ctor 3 1, XrdClientID_ctor 4 2]" 0]
    C4_GetFreeID [of "[XrdClientID_ctor 3 1, XrdClientID_ctor 4 2, XrdClientID_ctor 5 3]" 1]
  by (simp add: detach_def GetFreeID_def IsValid_def Reset_def XrdClientID_ctor_def)

text \<open>The count, and what attaching and detaching keep.\<close>

lemma GetNClients_filter: "GetNClients t = length (filter IsValid t)"
  by (induction t) auto

lemma GetNClients_card: "GetNClients t = card {i. i < length t \<and> IsValid (t ! i)}"
  by (simp add: GetNClients_filter length_filter_conv_card)

lemma GetNClients_le: "GetNClients t \<le> length t"
  by (simp add: GetNClients_filter)

lemma length_detach: "length (detach k t) = length t"
  by (simp add: detach_def)

lemma detach_same: "k < length t \<Longrightarrow> \<not> IsValid (detach k t ! k)"
  by (simp add: detach_def not_IsValid_Reset)

lemma detach_other: "i \<noteq> k \<Longrightarrow> detach k t ! i = t ! i"
  by (simp add: detach_def)

lemma GetFreeID_shape:
  "\<exists>i t'. GetFreeID t = (i, t') \<and> i < length t' \<and> length t \<le> length t' \<and>
     (\<forall>j<length t. t' ! j = t ! j) \<and> (i < length t \<longrightarrow> \<not> IsValid (t ! i))"
proof (cases "first_invalid t")
  case None
  then show ?thesis by (simp add: GetFreeID_def nth_append)
next
  case (Some i)
  with first_invalid_Some [OF Some] show ?thesis by (simp add: GetFreeID_def)
qed

lemma attach_keeps:
  "length t \<le> length (snd (attach pt sid t)) \<and>
   (\<forall>j<length t. IsValid (t ! j) \<longrightarrow> snd (attach pt sid t) ! j = t ! j)"
proof -
  obtain i t' where g: "GetFreeID t = (i, t')" "i < length t'" "length t \<le> length t'"
      "\<forall>j<length t. t' ! j = t ! j" "i < length t \<longrightarrow> \<not> IsValid (t ! i)"
    using GetFreeID_shape [of t] by blast
  have "t'[i := XrdClientID_ctor pt sid] ! j = t ! j" if "j < length t" "IsValid (t ! j)" for j
  proof -
    from that g(5) have "j \<noteq> i" by auto
    with that g(4) show ?thesis by simp
  qed
  with g show ?thesis by (simp add: attach_def)
qed

lemma attach_stores:
  "fst (attach pt sid t) < length (snd (attach pt sid t)) \<and>
   snd (attach pt sid t) ! fst (attach pt sid t) = XrdClientID_ctor pt sid"
proof -
  obtain i t' where g: "GetFreeID t = (i, t')" "i < length t'"
    using GetFreeID_shape [of t] by blast
  then show ?thesis by (simp add: attach_def)
qed

lemma run_op_keeps:
  "i < length t \<Longrightarrow> IsValid (t ! i) \<Longrightarrow> x \<noteq> Detach i \<Longrightarrow>
   i < length (run_op x t) \<and> run_op x t ! i = t ! i"
proof (cases x)
  case (Attach pt sid)
  assume "i < length t" "IsValid (t ! i)"
  with attach_keeps [of t pt sid] Attach show ?thesis by auto
next
  case (Detach k)
  assume "i < length t" "x \<noteq> Detach i"
  with Detach show ?thesis by (simp add: length_detach detach_other)
qed

lemma run_ops_keeps:
  "i < length t \<Longrightarrow> IsValid (t ! i) \<Longrightarrow> Detach i \<notin> set ops \<Longrightarrow>
   i < length (run_ops ops t) \<and> run_ops ops t ! i = t ! i"
proof (induction ops arbitrary: t)
  case Nil
  then show ?case by simp
next
  case (Cons x xs)
  from Cons.prems have x: "x \<noteq> Detach i" and xs: "Detach i \<notin> set xs" by auto
  from run_op_keeps [OF Cons.prems(1,2) x]
  have s: "i < length (run_op x t)" "run_op x t ! i = t ! i" by simp_all
  with Cons.prems(2) have "IsValid (run_op x t ! i)" by simp
  from Cons.IH [OF s(1) this xs] s(2) show ?case by simp
qed

text \<open>
  Claim C5. After any sequence of attach and detach operations, \<open>GetNClients\<close> is the
  number of slots that hold a valid handle, which is at most the length of the sequence.
  Detaching keeps the length: the slot is reset to the invalid handle and the other slots
  are as before. A slot that holds a valid handle and is not detached holds the same
  handle at the same index after the operations; so does the slot an attach has just
  returned for a client with a non-null connection.
\<close>

theorem C5_clients:
  "GetNClients (run_ops ops t) =
     card {i. i < length (run_ops ops t) \<and> IsValid (run_ops ops t ! i)} \<and>
   GetNClients (run_ops ops t) \<le> length (run_ops ops t) \<and>
   length (detach k t) = length t \<and>
   (k < length t \<longrightarrow> \<not> IsValid (detach k t ! k)) \<and>
   (\<forall>i. i < length t \<and> i \<noteq> k \<longrightarrow> detach k t ! i = t ! i) \<and>
   (\<forall>i. i < length t \<and> IsValid (t ! i) \<and> Detach i \<notin> set ops \<longrightarrow>
      i < length (run_ops ops t) \<and> run_ops ops t ! i = t ! i) \<and>
   (pt \<noteq> 0 \<and> Detach (fst (attach pt sid t)) \<notin> set ops \<longrightarrow>
      fst (attach pt sid t) < length (run_ops ops (snd (attach pt sid t))) \<and>
      run_ops ops (snd (attach pt sid t)) ! fst (attach pt sid t) = XrdClientID_ctor pt sid)"
proof -
  have stable: "fst (attach pt sid t) < length (run_ops ops (snd (attach pt sid t))) \<and>
      run_ops ops (snd (attach pt sid t)) ! fst (attach pt sid t) = XrdClientID_ctor pt sid"
    if "pt \<noteq> 0" "Detach (fst (attach pt sid t)) \<notin> set ops"
  proof -
    let ?i = "fst (attach pt sid t)" and ?t = "snd (attach pt sid t)"
    from attach_stores [of pt sid t]
    have a: "?i < length ?t" "?t ! ?i = XrdClientID_ctor pt sid" by simp_all
    with that(1) have "IsValid (?t ! ?i)" by (simp add: IsValid_def XrdClientID_ctor_def)
    from run_ops_keeps [OF a(1) this that(2)] a(2) show ?thesis by simp
  qed
  show ?thesis
    using GetNClients_card [of "run_ops ops t"] GetNClients_le [of "run_ops ops t"]
      length_detach [of k t] detach_same [of k t] detach_other [of _ k t]
      run_ops_keeps [of _ t ops] stable
    by blast
qed

theorem C5_clients_witness:
  "(7::nat) \<noteq> 0 \<and> Detach 2 \<notin> set [Detach 0, Attach 5 9, Attach 6 6] \<and>
   run_ops [Detach 0, Attach 5 9, Attach 6 6] [XrdClientID_ctor 3 1, XrdClientID_ctor 4 2] =
     [XrdClientID_ctor 5 9, XrdClientID_ctor 4 2, XrdClientID_ctor 6 6] \<and>
   GetNClients (run_ops [Detach 0, Attach 5 9, Attach 6 6] [XrdClientID_ctor 3 1, XrdClientID_ctor 4 2]) = 3 \<and>
   detach 0 [XrdClientID_ctor 3 1, XrdClientID_ctor 4 2] = [XrdClientID_ctor 0 0, XrdClientID_ctor 4 2] \<and>
   GetNClients (detach 0 [XrdClientID_ctor 3 1, XrdClientID_ctor 4 2]) = 1 \<and>
   attach 7 7 [XrdClientID_ctor 3 1, XrdClientID_ctor 4 2] =
     (2, [XrdClientID_ctor 3 1, XrdClientID_ctor 4 2, XrdClientID_ctor 7 7]) \<and>
   run_ops [Detach 0, Attach 5 9, Attach 6 6] (snd (attach 7 7 [XrdClientID_ctor 3 1, XrdClientID_ctor 4 2])) ! 2 =
     XrdClientID_ctor 7 7"
  using C5_clients [of "[Detach 0, Attach 5 9, Attach 6 6]" "[XrdClientID_ctor 3 1, XrdClientID_ctor 4 2]" 0 7 7]
  by (simp add: attach_def detach_def GetFreeID_def IsValid_def Reset_def XrdClientID_ctor_def)

end
